theory Spec2Isabelle
  imports Main "HOL-Library.Sublist"
begin

section \<open>Values exchanged with the client\<close>

text \<open>
  The server of \<^verbatim>\<open>index.js\<close> answers every request with a status code and a JSON
  body (\<^verbatim>\<open>res.status(n).json(v)\<close>; \<^verbatim>\<open>res.json(v)\<close> alone answers with status 200).
  A handler that throws, an \<^verbatim>\<open>async\<close> handler whose promise rejects and a middleware
  that calls \<^verbatim>\<open>next(err)\<close> send no such answer: that is the outcome \<open>Raised\<close>.
\<close>

datatype json = JNull | JBool bool | JStr string | JArr "json list" | JObj "(string \<times> json) list"

record response =
  status :: nat
  body :: json

datatype exn = TypeError | IllegalArguments | MulterError string

datatype outcome = Sent response | Raised exn

section \<open>Credential store\<close>

text \<open>
  \<^verbatim>\<open>users.json\<close> holds one JSON object, username to password hash. The file either does
  not exist (\<open>None\<close>) or holds such an object (\<open>Some m\<close>); a file that does not parse is
  outside the model.

  \<^verbatim>\<open>users[username]\<close> on the object that \<^verbatim>\<open>JSON.parse\<close> returns reads an own property
  when there is one and follows the prototype chain to \<^verbatim>\<open>Object.prototype\<close> otherwise,
  whose members are functions (and, for \<^verbatim>\<open>__proto__\<close>, the prototype object itself).
  The code tests the value read for truthiness: \<^verbatim>\<open>undefined\<close> and the empty string are
  falsy, every other string, every function and every object is truthy.
\<close>

type_synonym users = "string \<rightharpoonup> string"

datatype jsval = Undefined | StrVal string | Inherited

definition Object_prototype_keys :: "string list" where
  "Object_prototype_keys =
     [''constructor'', ''__proto__'', ''hasOwnProperty'', ''isPrototypeOf'',
      ''propertyIsEnumerable'', ''toLocaleString'', ''toString'', ''valueOf'',
      ''__defineGetter__'', ''__defineSetter__'', ''__lookupGetter__'', ''__lookupSetter__'']"

definition getProp :: "users \<Rightarrow> string \<Rightarrow> jsval" where
  "getProp us k =
     (case us k of
        Some h \<Rightarrow> StrVal h
      | None \<Rightarrow> if k \<in> set Object_prototype_keys then Inherited else Undefined)"

fun truthy :: "jsval \<Rightarrow> bool" where
  "truthy Undefined = False"
| "truthy (StrVal s) = (s \<noteq> [])"
| "truthy Inherited = True"

text \<open>
  The hashing library (bcryptjs) is not part of the repository: it is a parameter.
  \<open>digest B salt pw\<close> is the hash of \<open>pw\<close> under the salt the library draws for the
  call, \<open>matches B pw h\<close> its verdict on a candidate password against a stored hash.
  \<^verbatim>\<open>bcrypt.compare\<close> rejects with "Illegal arguments" when the hash it is given is
  not a string.
\<close>

record bcrypt =
  digest :: "string \<Rightarrow> string \<Rightarrow> string"
  matches :: "string \<Rightarrow> string \<Rightarrow> bool"

definition bcrypt_hash :: "bcrypt \<Rightarrow> string \<Rightarrow> string \<Rightarrow> string" where
  "bcrypt_hash B salt pw = digest B salt pw"

definition bcrypt_compare :: "bcrypt \<Rightarrow> string \<Rightarrow> jsval \<Rightarrow> exn + bool" where
  "bcrypt_compare B pw v =
     (case v of StrVal h \<Rightarrow> Inr (matches B pw h) | _ \<Rightarrow> Inl IllegalArguments)"

text \<open>
  \<^verbatim>\<open>loadUsers\<close>: \<open>salt0\<close> is the salt of the default account's hash, drawn only when the
  file is created. The result is the object read and the file afterwards.
\<close>

definition loadUsers :: "bcrypt \<Rightarrow> string \<Rightarrow> users option \<Rightarrow> users \<times> users option" where
  "loadUsers B salt0 fs =
     (case fs of
        None \<Rightarrow> (let us = [''admin'' \<mapsto> bcrypt_hash B salt0 ''r''] in (us, Some us))
      | Some us \<Rightarrow> (us, Some us))"

definition saveUsers :: "users \<Rightarrow> users option \<Rightarrow> users option" where
  "saveUsers us fs = Some us"

record user =
  username :: string
  password :: jsval

definition findUser :: "bcrypt \<Rightarrow> string \<Rightarrow> users option \<Rightarrow> string \<Rightarrow> user option \<times> users option" where
  "findUser B salt0 fs name =
     (let (us, fs1) = loadUsers B salt0 fs in
      if \<not> truthy (getProp us name) then (None, fs1)
      else (Some \<lparr>username = name, password = getProp us name\<rparr>, fs1))"

text \<open>\<^verbatim>\<open>addUser\<close>: \<open>Inl\<close> carries the message of the \<^verbatim>\<open>Error\<close> thrown.\<close>

definition addUser ::
  "bcrypt \<Rightarrow> string \<Rightarrow> string \<Rightarrow> users option \<Rightarrow> string \<Rightarrow> string \<Rightarrow> (string + string) \<times> users option" where
  "addUser B salt0 salt fs name pw =
     (let (us, fs1) = loadUsers B salt0 fs in
      if truthy (getProp us name) then (Inl ''User already exists'', fs1)
      else (Inr name, saveUsers (us(name \<mapsto> bcrypt_hash B salt pw)) fs1))"

section \<open>Requests and the session gate\<close>

text \<open>
  What the handlers read of a request: \<^verbatim>\<open>req.session.user\<close> (absent, or the username
  bound at login), \<^verbatim>\<open>req.body.username\<close> and \<^verbatim>\<open>req.body.password\<close>, the multipart part
  named \<^verbatim>\<open>file\<close> if there is one, and \<^verbatim>\<open>req.params.name\<close>.
\<close>

record upfile =
  originalname :: string
  buffer :: "nat list"
  mimetype :: string

record request =
  session_user :: "string option"
  body_username :: string
  body_password :: string
  req_file :: "upfile option"
  params_name :: string

text \<open>
  The storage backend is a parameter too: what it answers to each of the four commands,
  \<open>Inl\<close> an error. A handler's result is its outcome, the commands it sent to the backend
  and what it wrote with \<^verbatim>\<open>console.error\<close>.
\<close>

record backend =
  putObject :: "string \<Rightarrow> nat list \<Rightarrow> string \<Rightarrow> string + unit"
  listObjectsV2 :: "string \<Rightarrow> string + string list option"
  getSignedUrl :: "string \<Rightarrow> nat \<Rightarrow> string + string"
  deleteObject :: "string \<Rightarrow> string + unit"

datatype s3op = PutObject string | ListObjectsV2 string | GetObject string | DeleteObject string

record result =
  out :: outcome
  ops :: "s3op list"
  logged :: "string list"

definition requireLogin :: "request \<Rightarrow> (request \<Rightarrow> result) \<Rightarrow> result" where
  "requireLogin req next =
     (if session_user req = None
      then \<lparr>out = Sent \<lparr>status = 401,
                body = JObj [(''success'', JBool False), (''error'', JStr ''Login required'')]\<rparr>,
            ops = [], logged = []\<rparr>
      else next req)"

text \<open>
  \<^verbatim>\<open>multer({limits: {fileSize: 25 * 1024 * 1024}}).single("file")\<close>: a part longer than
  the limit ends the request with the library's error \<^verbatim>\<open>LIMIT_FILE_SIZE\<close>, passed to
  \<^verbatim>\<open>next\<close>; otherwise the part, if any, becomes \<^verbatim>\<open>req.file\<close>.
\<close>

definition fileSize :: nat where
  "fileSize = 25 * 1024 * 1024"

definition upload_single :: "request \<Rightarrow> (request \<Rightarrow> result) \<Rightarrow> result" where
  "upload_single req next =
     (case req_file req of
        None \<Rightarrow> next req
      | Some f \<Rightarrow>
          if fileSize < length (buffer f)
          then \<lparr>out = Raised (MulterError ''LIMIT_FILE_SIZE''), ops = [], logged = []\<rparr>
          else next req)"

section \<open>Authentication routes\<close>

text \<open>
  \<^verbatim>\<open>POST /register\<close> and \<^verbatim>\<open>POST /login\<close>: the outcome, \<^verbatim>\<open>req.session.user\<close> afterwards
  and the credential file afterwards.
\<close>

definition post_register ::
  "bcrypt \<Rightarrow> string \<Rightarrow> string \<Rightarrow> users option \<Rightarrow> request \<Rightarrow> outcome \<times> string option \<times> users option" where
  "post_register B salt0 salt fs req =
     (case addUser B salt0 salt fs (body_username req) (body_password req) of
        (Inr name, fs1) \<Rightarrow>
          (Sent \<lparr>status = 200, body = JObj [(''success'', JBool True)]\<rparr>, Some name, fs1)
      | (Inl msg, fs1) \<Rightarrow>
          (Sent \<lparr>status = 400, body = JObj [(''success'', JBool False), (''error'', JStr msg)]\<rparr>,
           session_user req, fs1))"

definition post_login ::
  "bcrypt \<Rightarrow> string \<Rightarrow> users option \<Rightarrow> request \<Rightarrow> outcome \<times> string option \<times> users option" where
  "post_login B salt0 fs req =
     (case findUser B salt0 fs (body_username req) of
        (None, fs1) \<Rightarrow>
          (Sent \<lparr>status = 401, body = JObj [(''success'', JBool False)]\<rparr>, session_user req, fs1)
      | (Some u, fs1) \<Rightarrow>
          (case bcrypt_compare B (body_password req) (password u) of
             Inl e \<Rightarrow> (Raised e, session_user req, fs1)
           | Inr ok \<Rightarrow>
               if \<not> ok
               then (Sent \<lparr>status = 401, body = JObj [(''success'', JBool False)]\<rparr>,
                     session_user req, fs1)
               else (Sent \<lparr>status = 200, body = JObj [(''success'', JBool True)]\<rparr>,
                     Some (username u), fs1)))"

section \<open>Storage keys\<close>

text \<open>
  \<^verbatim>\<open>Date.now()\<close> is a count of milliseconds; inside a template string it is written in
  decimal.
\<close>

function showNat :: "nat \<Rightarrow> string" where
  "showNat n =
     (if n < 10 then [char_of (48 + n)]
      else showNat (n div 10) @ [char_of (48 + n mod 10)])"
  by pat_completeness auto
termination
  by (relation "measure id") auto

declare showNat.simps [simp del]

definition upload_key :: "string \<Rightarrow> nat \<Rightarrow> string \<Rightarrow> string" where
  "upload_key name now orig = name @ ''/'' @ showNat now @ ''-'' @ orig"

definition file_key :: "string \<Rightarrow> string \<Rightarrow> string" where
  "file_key name fname = name @ ''/'' @ fname"

definition list_prefix :: "string \<Rightarrow> string" where
  "list_prefix name = name @ ''/''"

text \<open>
  \<^verbatim>\<open>path.basename\<close> (POSIX): trailing separators are dropped, then the part after the
  last remaining separator is returned.
\<close>

definition basename :: "string \<Rightarrow> string" where
  "basename p =
     rev (takeWhile (\<lambda>c. c \<noteq> CHR ''/'') (dropWhile (\<lambda>c. c = CHR ''/'') (rev p)))"

section \<open>File routes\<close>

definition upload_handler :: "backend \<Rightarrow> nat \<Rightarrow> request \<Rightarrow> result" where
  "upload_handler S3 now req =
     (case session_user req of
        None \<Rightarrow> \<lparr>out = Raised TypeError, ops = [], logged = []\<rparr>
      | Some name \<Rightarrow>
          (case req_file req of
             None \<Rightarrow> \<lparr>out = Raised TypeError, ops = [], logged = []\<rparr>
           | Some f \<Rightarrow>
               (let key = upload_key name now (originalname f) in
                case putObject S3 key (buffer f) (mimetype f) of
                  Inr _ \<Rightarrow>
                    \<lparr>out = Sent \<lparr>status = 200, body = JObj [(''success'', JBool True)]\<rparr>,
                     ops = [PutObject key], logged = []\<rparr>
                | Inl err \<Rightarrow>
                    \<lparr>out = Sent \<lparr>status = 500,
                        body = JObj [(''success'', JBool False), (''error'', JStr ''Upload failed'')]\<rparr>,
                     ops = [PutObject key], logged = [err]\<rparr>)))"

definition post_upload :: "backend \<Rightarrow> nat \<Rightarrow> request \<Rightarrow> result" where
  "post_upload S3 now req =
     requireLogin req (\<lambda>r. upload_single r (upload_handler S3 now))"

definition files_handler :: "backend \<Rightarrow> request \<Rightarrow> result" where
  "files_handler S3 req =
     (case session_user req of
        None \<Rightarrow> \<lparr>out = Raised TypeError, ops = [], logged = []\<rparr>
      | Some name \<Rightarrow>
          (let pre = list_prefix name in
           case listObjectsV2 S3 pre of
             Inr contents \<Rightarrow>
               \<lparr>out = Sent \<lparr>status = 200,
                   body = JArr (map (\<lambda>k. JStr (basename k))
                                  (case contents of None \<Rightarrow> [] | Some ks \<Rightarrow> ks))\<rparr>,
                ops = [ListObjectsV2 pre], logged = []\<rparr>
           | Inl err \<Rightarrow>
               \<lparr>out = Sent \<lparr>status = 500, body = JArr []\<rparr>,
                ops = [ListObjectsV2 pre], logged = [err]\<rparr>))"

definition get_files :: "backend \<Rightarrow> request \<Rightarrow> result" where
  "get_files S3 req = requireLogin req (files_handler S3)"

definition download_handler :: "backend \<Rightarrow> request \<Rightarrow> result" where
  "download_handler S3 req =
     (case session_user req of
        None \<Rightarrow> \<lparr>out = Raised TypeError, ops = [], logged = []\<rparr>
      | Some name \<Rightarrow>
          (let key = file_key name (params_name req) in
           case getSignedUrl S3 key 3600 of
             Inr url \<Rightarrow>
               \<lparr>out = Sent \<lparr>status = 200, body = JObj [(''url'', JStr url)]\<rparr>,
                ops = [GetObject key], logged = []\<rparr>
           | Inl err \<Rightarrow>
               \<lparr>out = Sent \<lparr>status = 500, body = JObj [(''url'', JNull)]\<rparr>,
                ops = [GetObject key], logged = [err]\<rparr>))"

definition get_file :: "backend \<Rightarrow> request \<Rightarrow> result" where
  "get_file S3 req = requireLogin req (download_handler S3)"

definition delete_handler :: "backend \<Rightarrow> request \<Rightarrow> result" where
  "delete_handler S3 req =
     (case session_user req of
        None \<Rightarrow> \<lparr>out = Raised TypeError, ops = [], logged = []\<rparr>
      | Some name \<Rightarrow>
          (let key = file_key name (params_name req) in
           case deleteObject S3 key of
             Inr _ \<Rightarrow>
               \<lparr>out = Sent \<lparr>status = 200, body = JObj [(''success'', JBool True)]\<rparr>,
                ops = [DeleteObject key], logged = []\<rparr>
           | Inl err \<Rightarrow>
               \<lparr>out = Sent \<lparr>status = 500, body = JObj [(''success'', JBool False)]\<rparr>,
                ops = [DeleteObject key], logged = [err]\<rparr>))"

definition delete_file :: "backend \<Rightarrow> request \<Rightarrow> result" where
  "delete_file S3 req = requireLogin req (delete_handler S3)"

section \<open>The specification's display name\<close>

text \<open>
  The specification describes the name shown for a key as the key with the leading
  username and separator removed. This definition follows those words; the code's
  \<open>basename\<close> is compared with it below.
\<close>

definition displayName_spec :: "string \<Rightarrow> string \<Rightarrow> string" where
  "displayName_spec name key = drop (length (list_prefix name)) key"

section \<open>Concrete instances\<close>

text \<open>
  Instances of the two parameters for evaluating the routes at concrete requests: a
  hashing library that writes salt and password side by side, a backend that fails
  every command, one whose bucket holds a fixed list of keys, and a part of
  \<open>25 * 1024 * 1024 + 1\<close> bytes.
\<close>

definition plainBcrypt :: bcrypt where
  "plainBcrypt =
     \<lparr>digest = (\<lambda>salt pw. CHR ''$'' # salt @ CHR ''$'' # pw),
      matches = (\<lambda>pw h. \<exists>salt \<in> set (prefixes (drop 1 h)). h = CHR ''$'' # salt @ CHR ''$'' # pw)\<rparr>"

definition failingBackend :: backend where
  "failingBackend =
     \<lparr>putObject = (\<lambda>k b t. Inl ''unreachable''),
      listObjectsV2 = (\<lambda>p. Inl ''unreachable''),
      getSignedUrl = (\<lambda>k n. Inl ''unreachable''),
      deleteObject = (\<lambda>k. Inl ''unreachable'')\<rparr>"

definition listingBackend :: "string list \<Rightarrow> backend" where
  "listingBackend ks =
     \<lparr>putObject = (\<lambda>k b t. Inr ()),
      listObjectsV2 = (\<lambda>p. Inr (Some (filter (prefix p) ks))),
      getSignedUrl = (\<lambda>k n. Inr (''https://signed/'' @ k)),
      deleteObject = (\<lambda>k. Inr ())\<rparr>"

definition anonymous :: request where
  "anonymous =
     \<lparr>session_user = None, body_username = [], body_password = [], req_file = None, params_name = []\<rparr>"

definition bigBuffer :: "nat list" where
  "bigBuffer = replicate 26214401 0"

section \<open>Auxiliary facts\<close>

lemma length_bigBuffer: "length bigBuffer = 26214401"
  by (simp only: bigBuffer_def length_replicate)

lemma key_prefix_same_user:
  assumes "CHR ''/'' \<notin> set a" and "CHR ''/'' \<notin> set b"
    and "prefix (b @ ''/'') (a @ ''/'' @ r)"
  shows "a = b"
proof -
  from assms(3) obtain zs where eq: "a @ ''/'' @ r = b @ ''/'' @ zs"
    by (auto simp: prefix_def)
  have "takeWhile (\<lambda>c. c \<noteq> CHR ''/'') (a @ ''/'' @ r) = a"
    using assms(1) by (subst takeWhile_append2) auto
  moreover have "takeWhile (\<lambda>c. c \<noteq> CHR ''/'') (b @ ''/'' @ zs) = b"
    using assms(2) by (subst takeWhile_append2) auto
  ultimately show ?thesis using eq by simp
qed

lemma basename_under_prefix:
  assumes "r \<noteq> []" and "CHR ''/'' \<notin> set r"
  shows "basename (p @ ''/'' @ r) = r"
proof -
  have "dropWhile (\<lambda>c. c = CHR ''/'') (rev r @ ''/'' @ rev p) = rev r @ ''/'' @ rev p"
    using assms by (cases "rev r") auto
  moreover have "takeWhile (\<lambda>c. c \<noteq> CHR ''/'') (rev r @ ''/'' @ rev p) = rev r"
    using assms(2) by (subst takeWhile_append2) auto
  ultimately show ?thesis
    by (simp add: basename_def)
qed

section \<open>Per-user key isolation\<close>

text \<open>
  C1, as stated: for all distinct usernames \<open>u1\<close> and \<open>u2\<close>, every key that an upload
  by \<open>u1\<close> produces lies outside the listing prefix of \<open>u2\<close>. Registration accepts any
  string as a username, the separator included, and the key of user \<open>a/b\<close> starts with
  the listing prefix of user \<open>a\<close>.
\<close>

theorem upload_key_isolation_counterexample:
  "''a/b'' \<noteq> ''a'' \<and> prefix (list_prefix ''a'') (upload_key ''a/b'' 1700000000000 ''x.txt'')"
  by (simp add: list_prefix_def upload_key_def)

text \<open>
  C1, amended: for distinct usernames neither of which contains the separator \<open>/\<close>,
  every key that an upload by \<open>u1\<close> produces, at any time and for any file name, lies
  outside the listing prefix of \<open>u2\<close>.
\<close>

theorem upload_key_isolation:
  assumes "u1 \<noteq> u2" and "CHR ''/'' \<notin> set u1" and "CHR ''/'' \<notin> set u2"
  shows "\<not> prefix (list_prefix u2) (upload_key u1 now orig)"
  using assms key_prefix_same_user [of u1 u2 "showNat now @ ''-'' @ orig"]
  by (auto simp: list_prefix_def upload_key_def)

text \<open>C1, amended, at the users \<open>alice\<close> and \<open>bob\<close>.\<close>

theorem upload_key_isolation_witness:
  "''alice'' \<noteq> ''bob'' \<and> CHR ''/'' \<notin> set ''alice'' \<and> CHR ''/'' \<notin> set ''bob''
   \<and> \<not> prefix (list_prefix ''bob'') (upload_key ''alice'' 1700000000000 ''a.txt'')"
  using upload_key_isolation [of "''alice''" "''bob''" 1700000000000 "''a.txt''"]
  by simp

section \<open>The session gate\<close>

text \<open>
  C2: a request to \<^verbatim>\<open>POST /upload\<close>, \<^verbatim>\<open>GET /files\<close>, \<^verbatim>\<open>GET /file/:name\<close> or
  \<^verbatim>\<open>DELETE /file/:name\<close> whose session has no bound identity is answered with status 401
  and the body \<^verbatim>\<open>{success: false, error: "Login required"}\<close>, and no command is sent to
  the storage backend.
\<close>

theorem gated_routes_require_login:
  assumes "session_user req = None"
  shows "post_upload S3 now req =
           \<lparr>out = Sent \<lparr>status = 401,
              body = JObj [(''success'', JBool False), (''error'', JStr ''Login required'')]\<rparr>,
            ops = [], logged = []\<rparr>
       \<and> get_files S3 req =
           \<lparr>out = Sent \<lparr>status = 401,
              body = JObj [(''success'', JBool False), (''error'', JStr ''Login required'')]\<rparr>,
            ops = [], logged = []\<rparr>
       \<and> get_file S3 req =
           \<lparr>out = Sent \<lparr>status = 401,
              body = JObj [(''success'', JBool False), (''error'', JStr ''Login required'')]\<rparr>,
            ops = [], logged = []\<rparr>
       \<and> delete_file S3 req =
           \<lparr>out = Sent \<lparr>status = 401,
              body = JObj [(''success'', JBool False), (''error'', JStr ''Login required'')]\<rparr>,
            ops = [], logged = []\<rparr>"
  using assms
  by (simp add: post_upload_def get_files_def get_file_def delete_file_def requireLogin_def)

text \<open>C2 at a request without a session, against a backend that would answer.\<close>

theorem gated_routes_require_login_witness:
  "session_user anonymous = None
   \<and> ops (post_upload (listingBackend []) 1700000000000 anonymous) = []
   \<and> out (get_files (listingBackend []) anonymous) =
        Sent \<lparr>status = 401,
              body = JObj [(''success'', JBool False), (''error'', JStr ''Login required'')]\<rparr>
   \<and> ops (get_file (listingBackend []) anonymous) = []
   \<and> ops (delete_file (listingBackend []) anonymous) = []"
  using gated_routes_require_login [of anonymous "listingBackend []" 1700000000000]
  by (simp add: anonymous_def)

section \<open>Registration and login\<close>

text \<open>
  Where the name submitted is neither an own property holding a non-empty hash nor a
  member of \<^verbatim>\<open>Object.prototype\<close>, and the library verifies the hashes it produces,
  registration succeeds and a login with the same credentials succeeds with the same
  identity.
\<close>

lemma register_then_login:
  assumes verify: "\<And>s p. matches B p (digest B s p)"
    and nonempty: "\<And>s p. digest B s p \<noteq> []"
    and fresh: "\<not> truthy (getProp (fst (loadUsers B salt0 fs)) (body_username req))"
  shows "\<exists>fs1.
      post_register B salt0 salt fs req =
        (Sent \<lparr>status = 200, body = JObj [(''success'', JBool True)]\<rparr>, Some (body_username req), fs1)
    \<and> post_login B salt0' fs1 req =
        (Sent \<lparr>status = 200, body = JObj [(''success'', JBool True)]\<rparr>, Some (body_username req), fs1)"
  using assms
  by (cases fs)
     (simp_all add: post_register_def post_login_def addUser_def findUser_def loadUsers_def
        saveUsers_def getProp_def bcrypt_compare_def bcrypt_hash_def Let_def)

lemma login_unknown_user:
  assumes "\<not> truthy (getProp (fst (loadUsers B salt0 fs)) (body_username req))"
  shows "fst (post_login B salt0 fs req) =
           Sent \<lparr>status = 401, body = JObj [(''success'', JBool False)]\<rparr>"
  using assms by (cases "loadUsers B salt0 fs") (simp add: post_login_def findUser_def)

lemma login_wrong_password:
  assumes "fst (loadUsers B salt0 fs) (body_username req) = Some h"
    and "\<not> matches B (body_password req) h"
  shows "fst (post_login B salt0 fs req) =
           Sent \<lparr>status = 401, body = JObj [(''success'', JBool False)]\<rparr>"
  using assms
  by (cases "loadUsers B salt0 fs")
     (simp add: post_login_def findUser_def getProp_def bcrypt_compare_def)

lemma login_success_verified:
  assumes "fst (post_login B salt0 fs req) = Sent \<lparr>status = 200, body = b\<rparr>"
  shows "\<exists>h. getProp (fst (loadUsers B salt0 fs)) (body_username req) = StrVal h
           \<and> matches B (body_password req) h"
  using assms
  by (cases "loadUsers B salt0 fs")
     (auto simp: post_login_def findUser_def bcrypt_compare_def
        split: if_splits jsval.splits)

text \<open>
  C3 says that registering a username that is not in the credential store succeeds.
  On a fresh store, which holds the account \<open>admin\<close> only, the username
  \<open>constructor\<close> is not in the store, and \<^verbatim>\<open>POST /register\<close> answers it with status 400
  and the error "User already exists": \<^verbatim>\<open>users[username]\<close> reads the member that every
  object inherits under that name. No session is bound and no account is written.
\<close>

theorem register_inherited_name_rejected:
  "[''admin'' \<mapsto> bcrypt_hash B salt0 ''r''] ''constructor'' = None
   \<and> post_register B salt0 salt None
        (anonymous\<lparr>body_username := ''constructor'', body_password := ''pw''\<rparr>) =
      (Sent \<lparr>status = 400,
             body = JObj [(''success'', JBool False), (''error'', JStr ''User already exists'')]\<rparr>,
       None, Some [''admin'' \<mapsto> bcrypt_hash B salt0 ''r''])"
  by (simp add: post_register_def addUser_def loadUsers_def getProp_def
      Object_prototype_keys_def anonymous_def Let_def)

text \<open>
  C4 says that a login whose username is not in the credential store is answered with
  status 401. On a fresh store the username \<open>constructor\<close> is not in the store, and
  \<^verbatim>\<open>findUser\<close> returns a record for it whose password is the inherited member; the
  comparison rejects that argument, so \<^verbatim>\<open>POST /login\<close> ends with the exception and
  sends no 401.
\<close>

theorem login_inherited_name_raises:
  "[''admin'' \<mapsto> bcrypt_hash B salt0 ''r''] ''constructor'' = None
   \<and> post_login B salt0 None
        (anonymous\<lparr>body_username := ''constructor'', body_password := ''pw''\<rparr>) =
      (Raised IllegalArguments, None, Some [''admin'' \<mapsto> bcrypt_hash B salt0 ''r''])"
  by (simp add: post_login_def findUser_def loadUsers_def getProp_def bcrypt_compare_def
      Object_prototype_keys_def anonymous_def Let_def)

text \<open>
  C5: after a registration of a username has succeeded, a second registration of that
  username, with any password, is answered with status 400 and the error
  "User already exists"; the credential file is the one the first registration left,
  and it holds for the username the hash that the first registration computed. The
  hashing library is taken to return non-empty hashes, as bcrypt does.
\<close>

theorem second_register_conflict:
  assumes nonempty: "\<And>s p. digest B s p \<noteq> []"
    and first: "post_register B salt0 salt fs req =
        (Sent \<lparr>status = 200, body = JObj [(''success'', JBool True)]\<rparr>, sess1, fs1)"
    and same: "body_username req' = body_username req"
  shows "post_register B salt0' salt' fs1 req' =
        (Sent \<lparr>status = 400,
               body = JObj [(''success'', JBool False), (''error'', JStr ''User already exists'')]\<rparr>,
         session_user req', fs1)
      \<and> (\<exists>us. fs1 = Some us
             \<and> us (body_username req) = Some (bcrypt_hash B salt (body_password req)))"
  using assms
  by (cases fs)
     (auto simp: post_register_def addUser_def loadUsers_def saveUsers_def getProp_def
        bcrypt_hash_def Let_def split: if_splits)

text \<open>C5 at two registrations of \<open>alice\<close> on a fresh store.\<close>

theorem second_register_conflict_witness:
  "post_register plainBcrypt ''s0'' ''s1'' None
       (anonymous\<lparr>body_username := ''alice'', body_password := ''pw1''\<rparr>) =
     (Sent \<lparr>status = 200, body = JObj [(''success'', JBool True)]\<rparr>, Some ''alice'',
      Some [''admin'' \<mapsto> ''$s0$r'', ''alice'' \<mapsto> ''$s1$pw1''])
   \<and> post_register plainBcrypt ''s2'' ''s3'' (Some [''admin'' \<mapsto> ''$s0$r'', ''alice'' \<mapsto> ''$s1$pw1''])
       (anonymous\<lparr>body_username := ''alice'', body_password := ''pw2''\<rparr>) =
     (Sent \<lparr>status = 400,
            body = JObj [(''success'', JBool False), (''error'', JStr ''User already exists'')]\<rparr>,
      None, Some [''admin'' \<mapsto> ''$s0$r'', ''alice'' \<mapsto> ''$s1$pw1''])"
proof -
  have nonempty: "\<And>s p. digest plainBcrypt s p \<noteq> []"
    by (simp add: plainBcrypt_def)
  have first: "post_register plainBcrypt ''s0'' ''s1'' None
       (anonymous\<lparr>body_username := ''alice'', body_password := ''pw1''\<rparr>) =
     (Sent \<lparr>status = 200, body = JObj [(''success'', JBool True)]\<rparr>, Some ''alice'',
      Some [''admin'' \<mapsto> ''$s0$r'', ''alice'' \<mapsto> ''$s1$pw1''])"
    by (simp add: post_register_def addUser_def loadUsers_def saveUsers_def getProp_def
        bcrypt_hash_def plainBcrypt_def Object_prototype_keys_def anonymous_def Let_def)
  have same: "body_username (anonymous\<lparr>body_username := ''alice'', body_password := ''pw2''\<rparr>) =
      body_username (anonymous\<lparr>body_username := ''alice'', body_password := ''pw1''\<rparr>)"
    by simp
  show ?thesis
    using second_register_conflict [OF nonempty first same, of "''s2''" "''s3''"] first
    by (simp add: anonymous_def bcrypt_hash_def plainBcrypt_def)
qed

section \<open>Loading the credential store\<close>

text \<open>
  C8: when the credential file does not exist, \<^verbatim>\<open>loadUsers\<close> creates it with exactly
  one account, the username \<open>admin\<close> mapped to a hash of the password \<open>r\<close>, and returns
  that mapping; when the file exists, \<^verbatim>\<open>loadUsers\<close> returns its contents and leaves the
  file as it was.
\<close>

theorem loadUsers_contract:
  "loadUsers B salt0 None =
     ([''admin'' \<mapsto> bcrypt_hash B salt0 ''r''], Some [''admin'' \<mapsto> bcrypt_hash B salt0 ''r''])
   \<and> dom [''admin'' \<mapsto> bcrypt_hash B salt0 ''r''] = {''admin''}
   \<and> loadUsers B salt0 (Some us) = (us, Some us)"
  by (simp add: loadUsers_def Let_def)

section \<open>Failures of the storage backend\<close>

text \<open>
  C6: for an authenticated request, when the backend fails with an error \<open>e\<close>, the
  listing answers status 500 with an empty array and the download link answers status
  500 with \<^verbatim>\<open>{url: null}\<close>, while the deletion answers status 500 with
  \<^verbatim>\<open>{success: false}\<close> and the upload answers status 500 with
  \<^verbatim>\<open>{success: false, error: "Upload failed"}\<close>; in all four the error is logged.
\<close>

theorem backend_failure_responses:
  assumes "session_user req = Some u"
  shows "(listObjectsV2 S3 (list_prefix u) = Inl e \<longrightarrow>
            get_files S3 req =
              \<lparr>out = Sent \<lparr>status = 500, body = JArr []\<rparr>,
               ops = [ListObjectsV2 (list_prefix u)], logged = [e]\<rparr>)
       \<and> (getSignedUrl S3 (file_key u (params_name req)) 3600 = Inl e \<longrightarrow>
            get_file S3 req =
              \<lparr>out = Sent \<lparr>status = 500, body = JObj [(''url'', JNull)]\<rparr>,
               ops = [GetObject (file_key u (params_name req))], logged = [e]\<rparr>)
       \<and> (deleteObject S3 (file_key u (params_name req)) = Inl e \<longrightarrow>
            delete_file S3 req =
              \<lparr>out = Sent \<lparr>status = 500, body = JObj [(''success'', JBool False)]\<rparr>,
               ops = [DeleteObject (file_key u (params_name req))], logged = [e]\<rparr>)
       \<and> (\<forall>f. req_file req = Some f \<and> length (buffer f) \<le> fileSize
              \<and> putObject S3 (upload_key u now (originalname f)) (buffer f) (mimetype f) = Inl e \<longrightarrow>
            post_upload S3 now req =
              \<lparr>out = Sent \<lparr>status = 500,
                  body = JObj [(''success'', JBool False), (''error'', JStr ''Upload failed'')]\<rparr>,
               ops = [PutObject (upload_key u now (originalname f))], logged = [e]\<rparr>)"
  using assms
  by (simp add: get_files_def get_file_def delete_file_def post_upload_def requireLogin_def
      files_handler_def download_handler_def delete_handler_def upload_single_def
      upload_handler_def Let_def)

text \<open>C6 at the requests of \<open>alice\<close> against a backend that fails every command.\<close>

theorem backend_failure_responses_witness:
  "get_files failingBackend
      (anonymous\<lparr>session_user := Some ''alice'', params_name := ''7-a.txt'',
         req_file := Some \<lparr>originalname = ''a.txt'', buffer = [104, 105], mimetype = ''text/plain''\<rparr>\<rparr>) =
     \<lparr>out = Sent \<lparr>status = 500, body = JArr []\<rparr>,
      ops = [ListObjectsV2 ''alice/''], logged = [''unreachable'']\<rparr>
   \<and> get_file failingBackend
      (anonymous\<lparr>session_user := Some ''alice'', params_name := ''7-a.txt'',
         req_file := Some \<lparr>originalname = ''a.txt'', buffer = [104, 105], mimetype = ''text/plain''\<rparr>\<rparr>) =
     \<lparr>out = Sent \<lparr>status = 500, body = JObj [(''url'', JNull)]\<rparr>,
      ops = [GetObject ''alice/7-a.txt''], logged = [''unreachable'']\<rparr>
   \<and> delete_file failingBackend
      (anonymous\<lparr>session_user := Some ''alice'', params_name := ''7-a.txt'',
         req_file := Some \<lparr>originalname = ''a.txt'', buffer = [104, 105], mimetype = ''text/plain''\<rparr>\<rparr>) =
     \<lparr>out = Sent \<lparr>status = 500, body = JObj [(''success'', JBool False)]\<rparr>,
      ops = [DeleteObject ''alice/7-a.txt''], logged = [''unreachable'']\<rparr>
   \<and> post_upload failingBackend 7
      (anonymous\<lparr>session_user := Some ''alice'', params_name := ''7-a.txt'',
         req_file := Some \<lparr>originalname = ''a.txt'', buffer = [104, 105], mimetype = ''text/plain''\<rparr>\<rparr>) =
     \<lparr>out = Sent \<lparr>status = 500,
         body = JObj [(''success'', JBool False), (''error'', JStr ''Upload failed'')]\<rparr>,
      ops = [PutObject ''alice/7-a.txt''], logged = [''unreachable'']\<rparr>"
proof -
  let ?req = "anonymous\<lparr>session_user := Some ''alice'', params_name := ''7-a.txt'',
         req_file := Some \<lparr>originalname = ''a.txt'', buffer = [104, 105], mimetype = ''text/plain''\<rparr>\<rparr>"
  have auth: "session_user ?req = Some ''alice''"
    by simp
  have seven: "showNat 7 = ''7''"
    by code_simp
  show ?thesis
    using backend_failure_responses [OF auth, of failingBackend "''unreachable''" 7]
    by (simp add: failingBackend_def list_prefix_def file_key_def upload_key_def fileSize_def
        anonymous_def seven)
qed

section \<open>Display names\<close>

text \<open>
  C7, as stated: every entry of a listing is the stored key with the user's prefix
  stripped, for every key under that prefix. The handler returns \<^verbatim>\<open>path.basename\<close> of
  the key, its last component: for the key \<open>a/b/c\<close>, which is under the prefix of user
  \<open>a\<close>, the entry is \<open>c\<close>, and the key with the prefix stripped is \<open>b/c\<close>.
\<close>

theorem files_display_names_counterexample:
  "get_files (listingBackend [''a/b/c'']) (anonymous\<lparr>session_user := Some ''a''\<rparr>) =
     \<lparr>out = Sent \<lparr>status = 200, body = JArr [JStr ''c'']\<rparr>,
      ops = [ListObjectsV2 ''a/''], logged = []\<rparr>
   \<and> prefix (list_prefix ''a'') ''a/b/c''
   \<and> displayName_spec ''a'' ''a/b/c'' = ''b/c''"
  by (simp add: get_files_def requireLogin_def files_handler_def listingBackend_def
      list_prefix_def basename_def displayName_spec_def anonymous_def)

text \<open>
  C7, amended: for every authenticated listing that the backend answers, the entries
  are \<^verbatim>\<open>path.basename\<close> of the keys returned, one per key and in the backend's order
  (none when the answer carries no \<^verbatim>\<open>Contents\<close>); and for every key that is the user's
  prefix followed by a non-empty remainder without a separator, that entry is the key
  with the user's prefix stripped, whatever the other keys of the listing are.
\<close>

theorem files_display_names:
  assumes "session_user req = Some u"
    and "listObjectsV2 S3 (list_prefix u) = Inr contents"
  shows "get_files S3 req =
           \<lparr>out = Sent \<lparr>status = 200,
               body = JArr (map (\<lambda>k. JStr (basename k))
                              (case contents of None \<Rightarrow> [] | Some ks \<Rightarrow> ks))\<rparr>,
            ops = [ListObjectsV2 (list_prefix u)], logged = []\<rparr>
       \<and> (\<forall>r. r \<noteq> [] \<and> CHR ''/'' \<notin> set r \<longrightarrow>
              basename (list_prefix u @ r) = displayName_spec u (list_prefix u @ r)
              \<and> displayName_spec u (list_prefix u @ r) = r)"
proof -
  have "basename (list_prefix u @ r) = r" if "r \<noteq> []" "CHR ''/'' \<notin> set r" for r
    using basename_under_prefix [OF that, of u] by (simp add: list_prefix_def)
  moreover have "displayName_spec u (list_prefix u @ r) = r" for r
    by (simp add: displayName_spec_def)
  moreover have "get_files S3 req =
           \<lparr>out = Sent \<lparr>status = 200,
               body = JArr (map (\<lambda>k. JStr (basename k))
                              (case contents of None \<Rightarrow> [] | Some ks \<Rightarrow> ks))\<rparr>,
            ops = [ListObjectsV2 (list_prefix u)], logged = []\<rparr>"
    using assms by (simp add: get_files_def requireLogin_def files_handler_def Let_def)
  ultimately show ?thesis
    by simp
qed

text \<open>
  C7, amended, at the listing of \<open>alice\<close> in a bucket that also holds a key of \<open>bob\<close>,
  a key of \<open>alice\<close> with a further separator and the key that is her prefix alone.
\<close>

theorem files_display_names_witness:
  "get_files (listingBackend [''alice/7-a.txt'', ''bob/8-b.txt'', ''alice/sub/x'', ''alice/''])
      (anonymous\<lparr>session_user := Some ''alice''\<rparr>) =
     \<lparr>out = Sent \<lparr>status = 200, body = JArr [JStr ''7-a.txt'', JStr ''x'', JStr ''alice'']\<rparr>,
      ops = [ListObjectsV2 ''alice/''], logged = []\<rparr>
   \<and> basename ''alice/7-a.txt'' = displayName_spec ''alice'' ''alice/7-a.txt''
   \<and> displayName_spec ''alice'' ''alice/7-a.txt'' = ''7-a.txt''"
proof -
  let ?S3 = "listingBackend [''alice/7-a.txt'', ''bob/8-b.txt'', ''alice/sub/x'', ''alice/'']"
  have auth: "session_user (anonymous\<lparr>session_user := Some ''alice''\<rparr>) = Some ''alice''"
    by simp
  have listing: "listObjectsV2 ?S3 (list_prefix ''alice'') =
      Inr (Some [''alice/7-a.txt'', ''alice/sub/x'', ''alice/''])"
    by (simp add: listingBackend_def list_prefix_def)
  have shape: "''7-a.txt'' \<noteq> [] \<and> CHR ''/'' \<notin> set ''7-a.txt''"
    by simp
  have names: "basename ''alice/sub/x'' = ''x''" "basename ''alice/'' = ''alice''"
    by (simp_all add: basename_def)
  show ?thesis
    using files_display_names [OF auth listing] shape names
    by (auto simp: list_prefix_def)
qed

section \<open>Uploads without a file and uploads over the size limit\<close>

text \<open>
  C9: for an authenticated \<^verbatim>\<open>POST /upload\<close> that carries no file part, the handler
  raises (the key is computed from \<^verbatim>\<open>req.file.originalname\<close> before the
  \<^verbatim>\<open>try\<close> block) instead of answering with a failure response, and sends nothing to
  the backend.
\<close>

theorem upload_without_file_raises:
  assumes "session_user req = Some u" and "req_file req = None"
  shows "post_upload S3 now req = \<lparr>out = Raised TypeError, ops = [], logged = []\<rparr>"
  using assms
  by (simp add: post_upload_def requireLogin_def upload_single_def upload_handler_def)

text \<open>C9 at a request of \<open>alice\<close> without a file part.\<close>

theorem upload_without_file_raises_witness:
  "post_upload (listingBackend []) 1700000000000 (anonymous\<lparr>session_user := Some ''alice''\<rparr>) =
     \<lparr>out = Raised TypeError, ops = [], logged = []\<rparr>"
proof -
  have auth: "session_user (anonymous\<lparr>session_user := Some ''alice''\<rparr>) = Some ''alice''"
    by simp
  have nofile: "req_file (anonymous\<lparr>session_user := Some ''alice''\<rparr>) = None"
    by (simp add: anonymous_def)
  show ?thesis
    using upload_without_file_raises [OF auth nofile] by simp
qed

text \<open>
  C10: an upload whose file part is longer than \<open>25 * 1024 * 1024\<close> bytes sends no
  command to the storage backend; the request ends at the session gate with status 401
  or at the upload middleware with its size-limit error.
\<close>

theorem upload_size_limit:
  assumes "req_file req = Some f" and "25 * 1024 * 1024 < length (buffer f)"
  shows "ops (post_upload S3 now req) = []
       \<and> out (post_upload S3 now req) \<in>
           {Sent \<lparr>status = 401,
              body = JObj [(''success'', JBool False), (''error'', JStr ''Login required'')]\<rparr>,
            Raised (MulterError ''LIMIT_FILE_SIZE'')}"
  using assms
  by (simp add: post_upload_def requireLogin_def upload_single_def fileSize_def)

text \<open>C10 at an upload by \<open>alice\<close> of a part one byte over the limit.\<close>

theorem upload_size_limit_witness:
  "post_upload (listingBackend []) 1700000000000
      (anonymous\<lparr>session_user := Some ''alice'',
         req_file := Some \<lparr>originalname = ''big.bin'', buffer = bigBuffer,
                            mimetype = ''application/octet-stream''\<rparr>\<rparr>) =
     \<lparr>out = Raised (MulterError ''LIMIT_FILE_SIZE''), ops = [], logged = []\<rparr>"
proof -
  let ?f = "\<lparr>originalname = ''big.bin'', buffer = bigBuffer, mimetype = ''application/octet-stream''\<rparr>"
  let ?req = "anonymous\<lparr>session_user := Some ''alice'', req_file := Some ?f\<rparr>"
  have part: "req_file ?req = Some ?f"
    by simp
  have big: "25 * 1024 * 1024 < length (buffer ?f)"
    by (simp add: length_bigBuffer)
  show ?thesis
    using upload_size_limit [OF part big, of "listingBackend []" 1700000000000]
    by (simp add: post_upload_def requireLogin_def upload_single_def fileSize_def length_bigBuffer)
qed

end
